theory Spec2Isabelle
  imports Main "HOL-Library.Word"
begin

section \<open>JavaScript strings\<close>

text \<open>
  A JavaScript string is a sequence of UTF-16 code units; \<open>length\<close>, the regular
  expressions without the \<open>u\<close> flag and \<open>replace\<close> all work on code units.
  \<open>js\<close> writes a string literal of the source (all of them are Latin-1).
\<close>

type_synonym jschar = "16 word"
type_synonym jsstring = "jschar list"

definition js :: "string \<Rightarrow> jsstring" where
  "js s = map (\<lambda>c. of_nat (of_char c)) s"

text \<open>
  \<open>s.replace(/c/g, r)\<close> for a pattern that is one literal character and a
  replacement \<open>r\<close> without \<open>$\<close> patterns: every occurrence of \<open>c\<close>, left to right,
  becomes \<open>r\<close>; the replacement text is not scanned again.
\<close>

fun replace_all :: "jschar \<Rightarrow> jsstring \<Rightarrow> jsstring \<Rightarrow> jsstring" where
  "replace_all c r [] = []"
| "replace_all c r (x # xs) =
     (if x = c then r @ replace_all c r xs else x # replace_all c r xs)"

section \<open>escapeHTMLTag\<close>

text \<open>The four patterns \<open>/</g\<close>, \<open>/>/g\<close>, \<open>/'/g\<close>, \<open>/"/g\<close>, each by the character it matches.\<close>

definition lt :: jschar where "lt = 0x3C"
definition gt :: jschar where "gt = 0x3E"
definition ap :: jschar where "ap = 0x27"
definition ic :: jschar where "ic = 0x22"

definition escapeHTMLTag :: "jsstring \<Rightarrow> jsstring" where
  "escapeHTMLTag html =
     replace_all ic (js ''&#34;'')
       (replace_all ap (js ''&#39;'')
         (replace_all gt (js ''&gt;'')
           (replace_all lt (js ''&lt;'') html)))"

text \<open>
  The replacement the specification describes: one pass in which each of the four
  characters becomes its entity and every other character stays.
\<close>

definition html_entity :: "jschar \<Rightarrow> jsstring" where
  "html_entity c =
     (if c = lt then js ''&lt;''
      else if c = gt then js ''&gt;''
      else if c = ap then js ''&#39;''
      else if c = ic then js ''&#34;''
      else [c])"

definition escaped_text :: "jsstring \<Rightarrow> jsstring" where
  "escaped_text s = concat (map html_entity s)"

section \<open>Syntax trees\<close>

text \<open>
  The markdown tree (mdast), restricted to the node kinds the handlers of \<open>render\<close>
  touch: an image carries \<open>url\<close> and an optional \<open>alt\<close> (\<open>string | undefined\<close>).
  Modelled from the spec: the spoiler node, which the grammar rules of \<open>./rules\<close> (not
  among the sources) produce; it wraps the parsed inline children.
\<close>

record image_node =
  url :: jsstring
  alt :: "jsstring option"

datatype mdast =
    Text jsstring
  | Image image_node
  | Spoiler "mdast list"

text \<open>
  The HTML tree (hast): an element with a tag name, its properties in the order the
  object literal lists them and its children; a text node; a \<open>raw\<close> node, whose value
  goes to the output verbatim under \<open>allowDangerousHtml: true\<close>.
\<close>

datatype hast =
    HElement jsstring "(jsstring \<times> jsstring) list" "hast list"
  | HText jsstring
  | HRaw jsstring

text \<open>
  The builder \<open>h(node, tagName, props, children)\<close> that the HTML compiler hands to a
  handler: an element with these properties and \<open>children || []\<close>. \<open>h.augment\<close> keeps
  the node it is given. (Both also copy the source position, which does not reach the
  output, and neither markdown node here carries \<open>data\<close> overrides.)
\<close>

definition h :: "'n \<Rightarrow> jsstring \<Rightarrow> (jsstring \<times> jsstring) list \<Rightarrow> hast list option \<Rightarrow> hast" where
  "h node tagName props children =
     HElement tagName props (case children of None \<Rightarrow> [] | Some cs \<Rightarrow> cs)"

definition augment :: "'n \<Rightarrow> hast \<Rightarrow> hast" where
  "augment node right = right"

definition properties :: "hast \<Rightarrow> (jsstring \<times> jsstring) list" where
  "properties e = (case e of HElement _ ps _ \<Rightarrow> ps | _ \<Rightarrow> [])"

section \<open>The handlers of render\<close>

text \<open>The character class \<open>[!\<exclamdown>]\<close>: U+0021 and U+00A1.\<close>

definition is_marker :: "jschar \<Rightarrow> bool" where
  "is_marker c = (c = 0x21 \<or> c = 0xA1)"

text \<open>\<open>_alt.match(/^[!\<exclamdown>]/)\<close> as a truth value: the string starts with a marker.\<close>

definition match_marker :: "jsstring \<Rightarrow> bool" where
  "match_marker a = (case a of [] \<Rightarrow> False | c # _ \<Rightarrow> is_marker c)"

text \<open>\<open>_alt.replace(/^[\<exclamdown>!]/, '')\<close>: a leading marker is removed, once.\<close>

definition replace_marker :: "jsstring \<Rightarrow> jsstring" where
  "replace_marker a = (case a of [] \<Rightarrow> [] | c # cs \<Rightarrow> if is_marker c then cs else c # cs)"

definition figcaption_open :: jsstring where
  "figcaption_open =
     js ''<figcaption style='' @ [ic] @ js ''text-align: center; margin: 1em auto;'' @ [ic] @ js ''>''"

text \<open>
  The \<open>image\<close> handler. \<open>normalize_url\<close> is the source's \<open>normalize\<close>, \<open>mdurl/encode.js\<close>, a dependency; it is a
  parameter here. \<open>alt0\<close> is the source's \<open>_alt\<close>, \<open>alt'\<close> its \<open>alt\<close>; \<open>!alt\<close> on a
  string is true exactly for the empty one.
\<close>

definition image_handler :: "(jsstring \<Rightarrow> jsstring) \<Rightarrow> image_node \<Rightarrow> hast" where
  "image_handler normalize_url node =
     (let src = url node;
          alt0 = alt node;
          alt' = (case alt0 of
                    None \<Rightarrow> []
                  | Some a \<Rightarrow> if match_marker a then replace_marker a else [])
      in if alt' = [] then h node (js ''img'') [(js ''src'', src)] None
         else h node (js ''figure'') []
                (Some [h node (js ''img'') [(js ''src'', normalize_url src)] None,
                       augment node
                         (HRaw (figcaption_open @ escapeHTMLTag alt' @ js ''</figcaption>''))]))"

text \<open>The \<open>spoiler\<close> handler: it calls \<open>h\<close> with three arguments.\<close>

definition spoiler_handler :: "mdast \<Rightarrow> hast" where
  "spoiler_handler node =
     h node (js ''del'')
       [(js ''class'', js ''spoiler''), (js ''style'', js ''filter: invert(25%);'')] None"

text \<open>
  The stock handler of a text node, which \<open>render\<close> does not replace:
  \<open>value.replace(/[ \t]*(\r?\n|\r)[ \t]*/g, '$1')\<close>, that is, spaces and tabs around a
  line break are removed. \<open>strip_line_breaks skip pend s\<close> scans \<open>s\<close>: \<open>pend\<close> holds the
  spaces and tabs read since the last other character (they are dropped when a line
  break follows and kept otherwise), and \<open>skip\<close> says that a line break has just been
  matched, so that spaces and tabs belong to its match.
\<close>

definition is_blank :: "jschar \<Rightarrow> bool" where
  "is_blank c = (c = 0x20 \<or> c = 0x09)"

fun strip_line_breaks :: "bool \<Rightarrow> jsstring \<Rightarrow> jsstring \<Rightarrow> jsstring" where
  "strip_line_breaks skip pend [] = pend"
| "strip_line_breaks skip pend (c # cs) =
     (if is_blank c then
        (if skip then strip_line_breaks True [] cs
         else strip_line_breaks False (pend @ [c]) cs)
      else if c = 0x0A then 0x0A # strip_line_breaks True [] cs
      else if c = 0x0D then
        (case cs of
           [] \<Rightarrow> [0x0D]
         | c' # cs' \<Rightarrow>
             if c' = 0x0A then 0x0D # 0x0A # strip_line_breaks True [] cs'
             else 0x0D # strip_line_breaks True [] cs)
      else pend @ c # strip_line_breaks False [] cs)"

definition text_handler :: "jsstring \<Rightarrow> hast" where
  "text_handler v = HText (strip_line_breaks False [] v)"

text \<open>
  The compiler's dispatch on the node kind: the two handlers above for images and
  spoilers, and the stock handler for a text node.
\<close>

fun lower :: "(jsstring \<Rightarrow> jsstring) \<Rightarrow> mdast \<Rightarrow> hast" where
  "lower normalize_url (Text s) = text_handler s"
| "lower normalize_url (Image n) = image_handler normalize_url n"
| "lower normalize_url (Spoiler cs) = spoiler_handler (Spoiler cs)"

section \<open>JavaScript values and objects\<close>

text \<open>
  The values a metadata field can hold. A number is modelled where it is an integer; a
  Date by its time value in milliseconds, \<open>None\<close> for an invalid Date. An object is a
  mapping from its own keys to values; a key that maps to \<open>JUndefined\<close> is present with
  the value \<open>undefined\<close>. The order in which the engine enumerates the keys is not
  modelled.
\<close>

datatype jsval =
    JUndefined
  | JNull
  | JBool bool
  | JNum int
  | JStr jsstring
  | JDate "int option"
  | JArr "jsval list"
  | JObj "(jsstring \<times> jsval) list"

type_synonym jsobject = "jsstring \<rightharpoonup> jsval"

text \<open>Reading a property: \<open>undefined\<close> when the object has no such key.\<close>

definition get :: "jsobject \<Rightarrow> jsstring \<Rightarrow> jsval" where
  "get obj k = (case obj k of None \<Rightarrow> JUndefined | Some v \<Rightarrow> v)"

text \<open>The truth value of \<open>v ? a : b\<close>.\<close>

fun truthy :: "jsval \<Rightarrow> bool" where
  "truthy JUndefined = False"
| "truthy JNull = False"
| "truthy (JBool b) = b"
| "truthy (JNum n) = (n \<noteq> 0)"
| "truthy (JStr s) = (s \<noteq> [])"
| "truthy (JDate t) = True"
| "truthy (JArr vs) = True"
| "truthy (JObj kvs) = True"

text \<open>
  \<open>new Date(v)\<close>: a Date passes its time value on; for any other value the engine
  converts (a string is parsed, a number is clipped), which is the parameter \<open>to_time\<close>.
\<close>

definition new_Date :: "(jsval \<Rightarrow> int option) \<Rightarrow> jsval \<Rightarrow> jsval" where
  "new_Date to_time v = (case v of JDate t \<Rightarrow> JDate t | _ \<Rightarrow> JDate (to_time v))"

text \<open>
  \<open>new Date()\<close> reads the system clock. The state is the number of readings taken so
  far and \<open>clock k\<close> is what reading number \<open>k\<close> returns.
\<close>

definition new_Date_now :: "(nat \<Rightarrow> int) \<Rightarrow> nat \<Rightarrow> jsval \<times> nat" where
  "new_Date_now clock n = (JDate (Some (clock n)), Suc n)"

text \<open>lodash's \<open>omit(object, paths)\<close> for paths that are plain keys.\<close>

definition omit :: "jsobject \<Rightarrow> jsstring list \<Rightarrow> jsobject" where
  "omit obj paths = (\<lambda>k. if k \<in> set paths then None else obj k)"

text \<open>
  \<open>String.prototype.trim\<close> removes the white space and line terminator code units of
  ECMAScript from both ends.
\<close>

definition is_white_space :: "jschar \<Rightarrow> bool" where
  "is_white_space c =
     (c = 0x09 \<or> c = 0x0A \<or> c = 0x0B \<or> c = 0x0C \<or> c = 0x0D \<or> c = 0x20 \<or> c = 0xA0
      \<or> c = 0x1680 \<or> (0x2000 \<le> c \<and> c \<le> 0x200A) \<or> c = 0x2028 \<or> c = 0x2029
      \<or> c = 0x202F \<or> c = 0x205F \<or> c = 0x3000 \<or> c = 0xFEFF)"

definition trim_start :: "jsstring \<Rightarrow> jsstring" where
  "trim_start s = dropWhile is_white_space s"

definition trim_end :: "jsstring \<Rightarrow> jsstring" where
  "trim_end s = rev (dropWhile is_white_space (rev s))"

definition trim :: "jsstring \<Rightarrow> jsstring" where
  "trim s = trim_end (trim_start s)"

definition nl :: jsstring where
  "nl = [0x0A]"

section \<open>Documents\<close>

text \<open>
  Modelled from the spec: the interface \<open>MarkdownYAMLProperty\<close> of
  \<open>markdown.interface.ts\<close>, which is not among the sources. A document is metadata and
  a body (the source's field \<open>text\<close>); the metadata has the reserved fields \<open>title\<close> and
  \<open>slug\<close> (text), \<open>created\<close> and \<open>modified\<close> (timestamps), and any further fields, which
  are \<open>rest\<close>. \<open>meta_object\<close> is the metadata as the one object it is at run time.
\<close>

record MetaType =
  created :: "int option"
  modified :: "int option"
  title :: jsstring
  slug :: jsstring
  rest :: jsobject

record MarkdownYAMLProperty =
  meta :: MetaType
  doc_text :: jsstring

definition meta_object :: "MetaType \<Rightarrow> jsobject" where
  "meta_object m =
     (rest m)(js ''created'' \<mapsto> JDate (created m),
              js ''modified'' \<mapsto> JDate (modified m),
              js ''title'' \<mapsto> JStr (title m),
              js ''slug'' \<mapsto> JStr (MetaType.slug m))"

text \<open>
  Modelled from the spec: the class \<open>DatatypeDto\<close> of \<open>markdown.dto.ts\<close>, which is not
  among the sources. An item to ingest is raw text (the source's field \<open>text\<close>) and
  optional metadata, an object from which the code reads \<open>date\<close>, \<open>updated\<close> and \<open>title\<close>.
\<close>

record DatatypeDto =
  meta :: "jsobject option"
  doc_text :: jsstring

section \<open>genDate\<close>

definition genDate ::
  "(jsval \<Rightarrow> int option) \<Rightarrow> (nat \<Rightarrow> int) \<Rightarrow> nat \<Rightarrow> DatatypeDto \<Rightarrow> jsobject \<times> nat" where
  "genDate to_time clock n item =
     (case DatatypeDto.meta item of
        None \<Rightarrow>
          (let (c, n1) = new_Date_now clock n;
               (m, n2) = new_Date_now clock n1
           in ([js ''created'' \<mapsto> c, js ''modified'' \<mapsto> m], n2))
      | Some meta' \<Rightarrow>
          (let date = get meta' (js ''date'');
               updated = get meta' (js ''updated'');
               (c, n1) = (if truthy date then (new_Date to_time date, n)
                          else new_Date_now clock n);
               (m, n2) = (if truthy updated then (new_Date to_time updated, n1)
                          else if truthy date then (new_Date to_time date, n1)
                          else new_Date_now clock n1)
           in ([js ''created'' \<mapsto> c, js ''modified'' \<mapsto> m], n2)))"

section \<open>insertNotesToDb\<close>

text \<open>
  The records that \<open>insertNotesToDb\<close> collects in \<open>models\<close> and hands to the store: for
  each item, in order, the title (a fixed one, U+672A U+547D U+540D U+8BB0 U+5F55, for
  an item without metadata), the text and the spread of \<open>genDate(item)\<close>. The clock runs
  through the calls; the store itself is outside the model.
\<close>

definition note_model ::
  "(jsval \<Rightarrow> int option) \<Rightarrow> (nat \<Rightarrow> int) \<Rightarrow> nat \<Rightarrow> DatatypeDto \<Rightarrow> jsobject \<times> nat" where
  "note_model to_time clock n item =
     (let title' = (case DatatypeDto.meta item of
                      None \<Rightarrow> JStr [0x672A, 0x547D, 0x540D, 0x8BB0, 0x5F55]
                    | Some meta' \<Rightarrow> get meta' (js ''title''));
          (dates, n') = genDate to_time clock n item
      in ([js ''title'' \<mapsto> title', js ''text'' \<mapsto> JStr (DatatypeDto.doc_text item)] ++ dates, n'))"

fun insertNotesToDb_models ::
  "(jsval \<Rightarrow> int option) \<Rightarrow> (nat \<Rightarrow> int) \<Rightarrow> nat \<Rightarrow> DatatypeDto list \<Rightarrow> jsobject list \<times> nat" where
  "insertNotesToDb_models to_time clock n [] = ([], n)"
| "insertNotesToDb_models to_time clock n (item # data) =
     (let (model, n1) = note_model to_time clock n item;
          (models, n2) = insertNotesToDb_models to_time clock n1 data
      in (model # models, n2))"

section \<open>markdownBuilder\<close>

text \<open>The object \<open>header\<close>: the literal's three keys, then the spread of the omitted rest.\<close>

definition header :: "MetaType \<Rightarrow> jsobject" where
  "header m =
     [js ''date'' \<mapsto> JDate (created m),
      js ''updated'' \<mapsto> JDate (modified m),
      js ''title'' \<mapsto> JStr (title m)]
     ++ omit (meta_object m) [js ''created'', js ''modified'', js ''title'']"

text \<open>
  \<open>dump\<close> is js-yaml's \<open>dump(header, { skipInvalid: true })\<close>, a dependency; it is a
  parameter that gives the YAML text or the exception that \<open>dump\<close> raises.
  \<open>skipInvalid\<close> makes it leave out a value it has no type for; it does not cover a
  Date that is invalid, for which \<open>toISOString\<close> raises a \<open>RangeError\<close>. \<open>markdownBuilder\<close>
  catches nothing, so an exception of \<open>dump\<close> is its own. The optional flags are \<open>None\<close>
  when the caller leaves them out.
\<close>

datatype js_error = RangeError | YAMLException

definition markdownBuilder ::
  "(jsobject \<Rightarrow> js_error + jsstring) \<Rightarrow> MarkdownYAMLProperty \<Rightarrow> bool option \<Rightarrow> bool option
     \<Rightarrow> js_error + jsstring" where
  "markdownBuilder dump property includeYAMLHeader showHeader =
     (let title' = title (MarkdownYAMLProperty.meta property);
          text = MarkdownYAMLProperty.doc_text property;
          heading = (if showHeader = Some True then js ''# '' @ title' @ nl @ nl else [])
      in if includeYAMLHeader \<noteq> Some True then Inr (heading @ trim text)
         else
           (case dump (header (MarkdownYAMLProperty.meta property)) of
              Inl e \<Rightarrow> Inl e
            | Inr toYaml \<Rightarrow>
                Inr (trim (nl @ js ''---'' @ nl @ trim toYaml @ nl @ js ''---'' @ nl @ nl
                           @ heading @ nl @ trim text @ nl))))"

section \<open>generateArchive\<close>

text \<open>
  The archive of JSZip, a dependency: its \<open>files\<close>, names with their contents in the
  order of first insertion. \<open>zip.file(name, data)\<close> replaces the content stored under
  a name that is there and adds the name at the end otherwise.
\<close>

type_synonym jszip = "(jsstring \<times> jsstring) list"

definition JSZip_new :: jszip where
  "JSZip_new = []"

fun zip_file :: "jszip \<Rightarrow> jsstring \<Rightarrow> jsstring \<Rightarrow> jszip" where
  "zip_file [] name data = [(name, data)]"
| "zip_file ((k, v) # fs) name data =
     (if k = name then (k, data) # fs else (k, v) # zip_file fs name data)"

record archive_options =
  slug :: "bool option"

text \<open>The name of a document's entry: the first argument of \<open>zip.file\<close>.\<close>

definition entry_name :: "archive_options \<Rightarrow> MarkdownYAMLProperty \<Rightarrow> jsstring" where
  "entry_name options document =
     replace_all 0x2F (js ''-'')
       ((if archive_options.slug options = Some True
         then MetaType.slug (MarkdownYAMLProperty.meta document)
         else title (MarkdownYAMLProperty.meta document)) @ js ''.md'')"

text \<open>The \<open>for ... of\<close> loop over the documents, with the archive \<open>zip\<close> as its state.\<close>

fun archive_loop :: "archive_options \<Rightarrow> MarkdownYAMLProperty list \<Rightarrow> jszip \<Rightarrow> jszip" where
  "archive_loop options [] zip' = zip'"
| "archive_loop options (document # documents) zip' =
     archive_loop options documents
       (zip_file zip' (entry_name options document) (MarkdownYAMLProperty.doc_text document))"

definition generateArchive :: "MarkdownYAMLProperty list \<Rightarrow> archive_options \<Rightarrow> jszip" where
  "generateArchive documents options = archive_loop options documents JSZip_new"

section \<open>Properties of escapeHTMLTag\<close>

lemma replace_all_append:
  "replace_all c r (xs @ ys) = replace_all c r xs @ replace_all c r ys"
  by (induction xs) simp_all

lemma escapeHTMLTag_Nil: "escapeHTMLTag [] = []"
  by (simp add: escapeHTMLTag_def)

lemma escapeHTMLTag_Cons:
  "escapeHTMLTag (c # s) = html_entity c @ escapeHTMLTag s"
  by (simp add: escapeHTMLTag_def html_entity_def replace_all_append js_def
      lt_def gt_def ap_def ic_def)

lemma escapeHTMLTag_escaped_text: "escapeHTMLTag s = escaped_text s"
  by (induction s) (simp_all add: escapeHTMLTag_Nil escapeHTMLTag_Cons escaped_text_def)

lemma escapeHTMLTag_append:
  "escapeHTMLTag (xs @ ys) = escapeHTMLTag xs @ escapeHTMLTag ys"
  by (simp add: escapeHTMLTag_escaped_text escaped_text_def)

lemma html_entity_fixed: "escapeHTMLTag (html_entity c) = html_entity c"
  by (simp add: html_entity_def escapeHTMLTag_def js_def lt_def gt_def ap_def ic_def)

lemma escapeHTMLTag_idem: "escapeHTMLTag (escapeHTMLTag s) = escapeHTMLTag s"
  by (induction s)
    (simp_all add: escapeHTMLTag_Nil escapeHTMLTag_Cons escapeHTMLTag_append html_entity_fixed)

text \<open>
  Claim C10. \<open>escapeHTMLTag\<close> is one pass that turns \<open><\<close>, \<open>>\<close>, \<open>'\<close> and \<open>"\<close> into
  \<open>&lt;\<close>, \<open>&gt;\<close>, \<open>&#39;\<close> and \<open>&#34;\<close> and keeps every other character, so \<open>&\<close> is
  never escaped and entity text passes unchanged; escaping twice is escaping once.
\<close>

theorem escapeHTMLTag_four_characters_idempotent:
  "escapeHTMLTag s =
     concat (map (\<lambda>c. if c = 0x3C then js ''&lt;''
                     else if c = 0x3E then js ''&gt;''
                     else if c = 0x27 then js ''&#39;''
                     else if c = 0x22 then js ''&#34;''
                     else [c]) s)
   \<and> escapeHTMLTag (js ''&'') = js ''&''
   \<and> escapeHTMLTag (js ''&lt;b&gt; &#39;&amp;&#34;'') = js ''&lt;b&gt; &#39;&amp;&#34;''
   \<and> escapeHTMLTag (escapeHTMLTag s) = escapeHTMLTag s"
proof -
  have "html_entity = (\<lambda>c. if c = 0x3C then js ''&lt;''
                     else if c = 0x3E then js ''&gt;''
                     else if c = 0x27 then js ''&#39;''
                     else if c = 0x22 then js ''&#34;''
                     else [c])"
    by (rule ext) (simp add: html_entity_def lt_def gt_def ap_def ic_def)
  then have one_pass: "escapeHTMLTag s =
     concat (map (\<lambda>c. if c = 0x3C then js ''&lt;''
                     else if c = 0x3E then js ''&gt;''
                     else if c = 0x27 then js ''&#39;''
                     else if c = 0x22 then js ''&#34;''
                     else [c]) s)"
    using escapeHTMLTag_escaped_text [of s] by (simp add: escaped_text_def)
  have amp: "escapeHTMLTag (js ''&'') = js ''&''"
    by (simp add: escapeHTMLTag_def js_def lt_def gt_def ap_def ic_def)
  have entities:
    "escapeHTMLTag (js ''&lt;b&gt; &#39;&amp;&#34;'') = js ''&lt;b&gt; &#39;&amp;&#34;''"
    by (simp add: escapeHTMLTag_def js_def lt_def gt_def ap_def ic_def)
  from one_pass amp entities escapeHTMLTag_idem [of s] show ?thesis by blast
qed

section \<open>Properties of the image and spoiler handlers\<close>

lemma caption_alt:
  "is_marker m \<Longrightarrow> match_marker (m # c) \<and> replace_marker (m # c) = c"
  by (simp add: match_marker_def replace_marker_def)

text \<open>
  Claim C1. For an image whose alt text is a marker (\<open>!\<close> or \<open>\<exclamdown>\<close>) followed by a
  non-empty caption \<open>c\<close>, the handler returns a \<open>figure\<close> element with two children: an
  \<open>img\<close> whose \<open>src\<close> is the normalized url, and a raw node that is the opening tag
  \<open><figcaption style="text-align: center; margin: 1em auto;">\<close> (its two quotation
  marks are U+0022), then \<open>c\<close> with each \<open><\<close>, \<open>>\<close>, \<open>'\<close>, \<open>"\<close> replaced by its entity, then
  \<open></figcaption>\<close>. The caption is a raw string: it is not parsed as markdown.
\<close>

theorem image_handler_caption_figure:
  assumes "is_marker m" and "c \<noteq> []"
  shows "image_handler normalize_url \<lparr>url = u, alt = Some (m # c)\<rparr> =
           HElement (js ''figure'') []
             [HElement (js ''img'') [(js ''src'', normalize_url u)] [],
              HRaw (js ''<figcaption style='' @ [0x22]
                    @ js ''text-align: center; margin: 1em auto;'' @ [0x22] @ js ''>''
                    @ concat (map (\<lambda>x. if x = 0x3C then js ''&lt;''
                                        else if x = 0x3E then js ''&gt;''
                                        else if x = 0x27 then js ''&#39;''
                                        else if x = 0x22 then js ''&#34;''
                                        else [x]) c)
                    @ js ''</figcaption>'')]"
proof -
  have entity: "html_entity = (\<lambda>x. if x = 0x3C then js ''&lt;''
                                        else if x = 0x3E then js ''&gt;''
                                        else if x = 0x27 then js ''&#39;''
                                        else if x = 0x22 then js ''&#34;''
                                        else [x])"
    by (rule ext) (simp add: html_entity_def lt_def gt_def ap_def ic_def)
  have "image_handler normalize_url \<lparr>url = u, alt = Some (m # c)\<rparr> =
           HElement (js ''figure'') []
             [HElement (js ''img'') [(js ''src'', normalize_url u)] [],
              HRaw (figcaption_open @ escaped_text c @ js ''</figcaption>'')]"
    using assms
    by (simp add: image_handler_def caption_alt h_def augment_def escapeHTMLTag_escaped_text)
  then show ?thesis
    by (simp add: figcaption_open_def ic_def escaped_text_def entity)
qed

theorem image_handler_caption_figure_witness:
  "is_marker 0xA1 \<and> js ''Photo of a <fox>'' \<noteq> [] \<and>
   image_handler (replace_all 0x20 (js ''%20''))
       \<lparr>url = js ''red fox.png'', alt = Some (0xA1 # js ''Photo of a <fox>'')\<rparr> =
     HElement (js ''figure'') []
       [HElement (js ''img'') [(js ''src'', js ''red%20fox.png'')] [],
        HRaw (js ''<figcaption style='' @ [0x22]
              @ js ''text-align: center; margin: 1em auto;'' @ [0x22] @ js ''>''
              @ js ''Photo of a &lt;fox&gt;'' @ js ''</figcaption>'')]"
proof -
  have m: "is_marker 0xA1" by (simp add: is_marker_def)
  have c: "js ''Photo of a <fox>'' \<noteq> []" by (simp add: js_def)
  show ?thesis
    using m c image_handler_caption_figure
      [OF m c, of "replace_all 0x20 (js ''%20'')" "js ''red fox.png''"]
    by (simp add: js_def)
qed

text \<open>
  Claim C9. For an image without alt text, with alt text that does not start with \<open>!\<close>
  or \<open>\<exclamdown>\<close>, or with alt text that is one marker character alone, the handler returns an
  \<open>img\<close> element whose only property is \<open>src\<close>: there is no \<open>alt\<close> attribute, the alt
  text is dropped.
\<close>

theorem image_handler_bare_img_no_alt:
  assumes "alt node = None
         \<or> (\<exists>a. alt node = Some a \<and> \<not> match_marker a)
         \<or> (\<exists>m. is_marker m \<and> alt node = Some [m])"
  shows "image_handler normalize_url node = HElement (js ''img'') [(js ''src'', url node)] []
       \<and> map_of (properties (image_handler normalize_url node)) (js ''alt'') = None"
proof -
  have img: "image_handler normalize_url node = HElement (js ''img'') [(js ''src'', url node)] []"
    using assms
    by (auto simp: image_handler_def h_def match_marker_def replace_marker_def)
  have "js ''alt'' \<noteq> js ''src''" by (simp add: js_def)
  with img show ?thesis by (simp add: properties_def)
qed

theorem image_handler_bare_img_no_alt_witness:
  "image_handler (replace_all 0x20 (js ''%20''))
       \<lparr>url = js ''fox.png'', alt = Some (js ''a fox'')\<rparr>
     = HElement (js ''img'') [(js ''src'', js ''fox.png'')] []
   \<and> image_handler (replace_all 0x20 (js ''%20''))
       \<lparr>url = js ''fox.png'', alt = Some (js ''!'')\<rparr>
     = HElement (js ''img'') [(js ''src'', js ''fox.png'')] []
   \<and> image_handler (replace_all 0x20 (js ''%20''))
       \<lparr>url = js ''fox.png'', alt = None\<rparr>
     = HElement (js ''img'') [(js ''src'', js ''fox.png'')] []"
proof -
  have a: "\<not> match_marker (js ''a fox'')"
    by (simp add: match_marker_def is_marker_def js_def)
  have b: "is_marker 0x21 \<and> js ''!'' = [0x21]"
    by (simp add: is_marker_def js_def)
  show ?thesis
    using image_handler_bare_img_no_alt
            [of "\<lparr>url = js ''fox.png'', alt = Some (js ''a fox'')\<rparr>"
                "replace_all 0x20 (js ''%20'')"]
          image_handler_bare_img_no_alt
            [of "\<lparr>url = js ''fox.png'', alt = Some (js ''!'')\<rparr>"
                "replace_all 0x20 (js ''%20'')"]
          image_handler_bare_img_no_alt
            [of "\<lparr>url = js ''fox.png'', alt = None\<rparr>" "replace_all 0x20 (js ''%20'')"]
          a b
    by auto
qed

text \<open>
  Claim C2. The claim asks for the normalized url in the \<open>src\<close> of a bare image. The
  handler passes \<open>node.url\<close> as it is: for a url that is U+00FC followed by \<open>.png\<close> and
  the alt text \<open>x\<close> the \<open>src\<close> is that url, unencoded, whatever \<open>normalize\<close> is, where
  the captioned branch emits \<open>normalize(src)\<close>.
\<close>

theorem image_handler_bare_src_not_normalized:
  "image_handler normalize_url \<lparr>url = 0xFC # js ''.png'', alt = Some (js ''x'')\<rparr> =
     HElement (js ''img'') [(js ''src'', 0xFC # js ''.png'')] []"
  by (simp add: image_handler_def h_def match_marker_def is_marker_def js_def)

text \<open>
  Claim C3. The claim asks for the lowered children inside the \<open>del\<close> element. The
  handler gives \<open>h\<close> no children: a spoiler around the text \<open>hidden text\<close> lowers to a
  \<open>del\<close> element with the class and the style and with no child, while the child
  itself lowers to the text node \<open>hidden text\<close>; and so for any children.
\<close>

theorem spoiler_children_not_lowered:
  "lower normalize_url (Spoiler [Text (js ''hidden text'')]) =
     HElement (js ''del'')
       [(js ''class'', js ''spoiler''), (js ''style'', js ''filter: invert(25%);'')] []
   \<and> map (lower normalize_url) [Text (js ''hidden text'')] = [HText (js ''hidden text'')]
   \<and> lower normalize_url (Spoiler children) =
     HElement (js ''del'')
       [(js ''class'', js ''spoiler''), (js ''style'', js ''filter: invert(25%);'')] []"
  by (simp add: spoiler_handler_def h_def text_handler_def is_blank_def js_def)

section \<open>Properties of generateArchive\<close>

lemma zip_file_map_of: "map_of (zip_file z name data) = (map_of z)(name \<mapsto> data)"
  by (induction z name data rule: zip_file.induct) (auto simp: fun_eq_iff)

lemma zip_file_keys:
  "map fst (zip_file z name data) =
     (if name \<in> set (map fst z) then map fst z else map fst z @ [name])"
  by (induction z name data rule: zip_file.induct) auto

lemma zip_file_fresh:
  "name \<notin> set (map fst z) \<Longrightarrow> zip_file z name data = z @ [(name, data)]"
  by (induction z name data rule: zip_file.induct) auto

lemma archive_loop_snoc:
  "archive_loop options (documents @ [d]) z =
     zip_file (archive_loop options documents z) (entry_name options d)
       (MarkdownYAMLProperty.doc_text d)"
  by (induction documents arbitrary: z) simp_all

lemma generateArchive_Nil: "generateArchive [] options = []"
  by (simp add: generateArchive_def JSZip_new_def)

lemma generateArchive_snoc:
  "generateArchive (documents @ [d]) options =
     zip_file (generateArchive documents options) (entry_name options d)
       (MarkdownYAMLProperty.doc_text d)"
  by (simp add: generateArchive_def archive_loop_snoc)

lemma generateArchive_map_of:
  "map_of (generateArchive documents options) =
     foldl (\<lambda>files d. files(entry_name options d \<mapsto> MarkdownYAMLProperty.doc_text d))
       Map.empty documents"
  by (induction documents rule: rev_induct)
    (simp_all add: generateArchive_Nil generateArchive_snoc zip_file_map_of)

lemma generateArchive_keys:
  "map fst (generateArchive documents options) =
     rev (remdups (rev (map (entry_name options) documents)))"
  by (induction documents rule: rev_induct)
    (simp_all add: generateArchive_Nil generateArchive_snoc zip_file_keys)

lemma generateArchive_distinct_names:
  "distinct (map (entry_name options) documents) \<Longrightarrow>
   generateArchive documents options =
     map (\<lambda>d. (entry_name options d, MarkdownYAMLProperty.doc_text d)) documents"
proof (induction documents rule: rev_induct)
  case Nil
  show ?case by (simp add: generateArchive_Nil)
next
  case (snoc d documents)
  then have fresh: "entry_name options d \<notin> set (map fst (generateArchive documents options))"
    by (simp add: generateArchive_keys)
  from snoc have "generateArchive documents options =
     map (\<lambda>d. (entry_name options d, MarkdownYAMLProperty.doc_text d)) documents"
    by simp
  with fresh show ?case
    by (simp add: generateArchive_snoc zip_file_fresh)
qed

lemma replace_all_removes:
  "c \<notin> set r \<Longrightarrow> c \<notin> set (replace_all c r s)"
  by (induction s) auto

lemma entry_name_no_slash: "0x2F \<notin> set (entry_name options d)"
  by (simp add: entry_name_def replace_all_removes js_def)

lemma foldl_upd_other:
  "\<forall>e\<in>set ds. f e \<noteq> k \<Longrightarrow> foldl (\<lambda>files d. files(f d \<mapsto> g d)) m ds k = m k"
  by (induction ds arbitrary: m) auto

lemma count_distinct_key:
  "distinct (map fst xs) \<Longrightarrow> k \<in> set (map fst xs) \<Longrightarrow>
   length (filter (\<lambda>(name, data). name = k) xs) = 1"
proof (induction xs)
  case Nil
  then show ?case by simp
next
  case (Cons x xs)
  show ?case
  proof (cases "fst x = k")
    case True
    with Cons.prems have "k \<notin> set (map fst xs)" by auto
    then have "filter (\<lambda>(name, data). name = k) xs = []"
      by (force simp: filter_empty_conv)
    with True show ?thesis by (simp add: case_prod_unfold)
  next
    case False
    with Cons show ?thesis by (simp add: case_prod_unfold)
  qed
qed

text \<open>
  Claim C7, amended. The entry name of a document is its slug (when \<open>options.slug\<close>
  is set) or its title, with \<open>.md\<close> appended and every \<open>/\<close> replaced by \<open>-\<close>, so it holds
  no \<open>/\<close>. The archive is built by one \<open>zip.file(name, text)\<close> per document in input
  order: the archive of a list that ends in \<open>d\<close> is the archive of the documents before
  it with \<open>d\<close>'s text filed under \<open>d\<close>'s name. Every document's name is in the archive,
  and the entry of that name holds the text of the last document of that name: the
  document's own text when no later document has its name. As a mapping the archive is
  the documents folded from the left; its names stand in the order of their first
  document; and when no two documents share a name it is exactly the list of the names
  with their texts.
\<close>

theorem generateArchive_entries:
  "(\<forall>d. entry_name options d =
          replace_all 0x2F (js ''-'')
            ((if archive_options.slug options = Some True
              then MetaType.slug (MarkdownYAMLProperty.meta d)
              else title (MarkdownYAMLProperty.meta d)) @ js ''.md'')
        \<and> 0x2F \<notin> set (entry_name options d))
   \<and> generateArchive [] options = []
   \<and> (\<forall>before d.
         generateArchive (before @ [d]) options =
           zip_file (generateArchive before options) (entry_name options d)
             (MarkdownYAMLProperty.doc_text d)
       \<and> map_of (generateArchive (before @ [d]) options) (entry_name options d) =
           Some (MarkdownYAMLProperty.doc_text d))
   \<and> (\<forall>d\<in>set documents.
         entry_name options d \<in> set (map fst (generateArchive documents options)))
   \<and> (\<forall>before d after.
         documents = before @ d # after
         \<and> (\<forall>e\<in>set after. entry_name options e \<noteq> entry_name options d) \<longrightarrow>
         map_of (generateArchive documents options) (entry_name options d) =
           Some (MarkdownYAMLProperty.doc_text d))
   \<and> map_of (generateArchive documents options) =
       foldl (\<lambda>files d. files(entry_name options d \<mapsto> MarkdownYAMLProperty.doc_text d))
         Map.empty documents
   \<and> map fst (generateArchive documents options) =
       rev (remdups (rev (map (entry_name options) documents)))
   \<and> (distinct (map (entry_name options) documents) \<longrightarrow>
       generateArchive documents options =
         map (\<lambda>d. (entry_name options d, MarkdownYAMLProperty.doc_text d)) documents)"
proof -
  have names: "\<forall>d. entry_name options d =
          replace_all 0x2F (js ''-'')
            ((if archive_options.slug options = Some True
              then MetaType.slug (MarkdownYAMLProperty.meta d)
              else title (MarkdownYAMLProperty.meta d)) @ js ''.md'')
        \<and> 0x2F \<notin> set (entry_name options d)"
    using entry_name_no_slash [of options] by (simp add: entry_name_def)
  have steps: "\<forall>before d.
         generateArchive (before @ [d]) options =
           zip_file (generateArchive before options) (entry_name options d)
             (MarkdownYAMLProperty.doc_text d)
       \<and> map_of (generateArchive (before @ [d]) options) (entry_name options d) =
           Some (MarkdownYAMLProperty.doc_text d)"
    by (simp add: generateArchive_snoc zip_file_map_of)
  have present: "\<forall>d\<in>set documents.
         entry_name options d \<in> set (map fst (generateArchive documents options))"
    by (simp add: generateArchive_keys)
  have last: "\<forall>before d after.
         documents = before @ d # after
         \<and> (\<forall>e\<in>set after. entry_name options e \<noteq> entry_name options d) \<longrightarrow>
         map_of (generateArchive documents options) (entry_name options d) =
           Some (MarkdownYAMLProperty.doc_text d)"
    by (auto simp: generateArchive_map_of foldl_upd_other)
  from names steps present last generateArchive_Nil [of options]
    generateArchive_map_of [of documents options]
    generateArchive_keys [of documents options]
    generateArchive_distinct_names [of options documents]
  show ?thesis by blast
qed

theorem generateArchive_entries_witness:
  "distinct (map (entry_name \<lparr>archive_options.slug = None\<rparr>)
      [\<lparr>MarkdownYAMLProperty.meta =
          \<lparr>created = Some 1000, modified = Some 2000, title = js ''notes/a'', slug = js ''a'',
           rest = Map.empty\<rparr>, doc_text = js ''one''\<rparr>,
       \<lparr>MarkdownYAMLProperty.meta =
          \<lparr>created = Some 1000, modified = Some 2000, title = js ''b'', slug = js ''b'',
           rest = Map.empty\<rparr>, doc_text = js ''two''\<rparr>])
   \<and> generateArchive
      [\<lparr>MarkdownYAMLProperty.meta =
          \<lparr>created = Some 1000, modified = Some 2000, title = js ''notes/a'', slug = js ''a'',
           rest = Map.empty\<rparr>, doc_text = js ''one''\<rparr>,
       \<lparr>MarkdownYAMLProperty.meta =
          \<lparr>created = Some 1000, modified = Some 2000, title = js ''b'', slug = js ''b'',
           rest = Map.empty\<rparr>, doc_text = js ''two''\<rparr>]
      \<lparr>archive_options.slug = None\<rparr> =
     [(js ''notes-a.md'', js ''one''), (js ''b.md'', js ''two'')]"
proof -
  let ?d1 = "\<lparr>MarkdownYAMLProperty.meta =
          \<lparr>created = Some 1000, modified = Some 2000, title = js ''notes/a'', slug = js ''a'',
           rest = Map.empty\<rparr>, doc_text = js ''one''\<rparr>"
  let ?d2 = "\<lparr>MarkdownYAMLProperty.meta =
          \<lparr>created = Some 1000, modified = Some 2000, title = js ''b'', slug = js ''b'',
           rest = Map.empty\<rparr>, doc_text = js ''two''\<rparr>"
  have n1: "entry_name \<lparr>archive_options.slug = None\<rparr> ?d1 = js ''notes-a.md''"
    by (simp add: entry_name_def js_def)
  have n2: "entry_name \<lparr>archive_options.slug = None\<rparr> ?d2 = js ''b.md''"
    by (simp add: entry_name_def js_def)
  have dist: "distinct (map (entry_name \<lparr>archive_options.slug = None\<rparr>) [?d1, ?d2])"
    by (simp add: n1 n2) (simp add: js_def)
  from generateArchive_entries [of "\<lparr>archive_options.slug = None\<rparr>" "[?d1, ?d2]"] dist
  have "generateArchive [?d1, ?d2] \<lparr>archive_options.slug = None\<rparr> =
         map (\<lambda>d. (entry_name \<lparr>archive_options.slug = None\<rparr> d, MarkdownYAMLProperty.doc_text d))
           [?d1, ?d2]"
    by blast
  with dist show ?thesis by (simp add: n1 n2)
qed

text \<open>
  Claim C7 as stated fails where two documents share an entry name: for the titles
  \<open>2021/01\<close> and \<open>2021-01\<close>, named by title, both names are \<open>2021-01.md\<close>, and the entry
  of the first document's name holds the second document's text, not its own.
\<close>

theorem generateArchive_entries_counterexample:
  "entry_name \<lparr>archive_options.slug = None\<rparr>
      \<lparr>MarkdownYAMLProperty.meta =
          \<lparr>created = Some 1000, modified = Some 2000, title = js ''2021/01'', slug = js ''a'',
           rest = Map.empty\<rparr>, doc_text = js ''first''\<rparr> = js ''2021-01.md''
   \<and> map_of
        (generateArchive
          [\<lparr>MarkdownYAMLProperty.meta =
              \<lparr>created = Some 1000, modified = Some 2000, title = js ''2021/01'', slug = js ''a'',
               rest = Map.empty\<rparr>, doc_text = js ''first''\<rparr>,
           \<lparr>MarkdownYAMLProperty.meta =
              \<lparr>created = Some 1000, modified = Some 2000, title = js ''2021-01'', slug = js ''b'',
               rest = Map.empty\<rparr>, doc_text = js ''second''\<rparr>]
          \<lparr>archive_options.slug = None\<rparr>) (js ''2021-01.md'') = Some (js ''second'')
   \<and> js ''second'' \<noteq> js ''first''
   \<and> generateArchive
          [\<lparr>MarkdownYAMLProperty.meta =
              \<lparr>created = Some 1000, modified = Some 2000, title = js ''2021/01'', slug = js ''a'',
               rest = Map.empty\<rparr>, doc_text = js ''first''\<rparr>,
           \<lparr>MarkdownYAMLProperty.meta =
              \<lparr>created = Some 1000, modified = Some 2000, title = js ''2021-01'', slug = js ''b'',
               rest = Map.empty\<rparr>, doc_text = js ''second''\<rparr>]
          \<lparr>archive_options.slug = None\<rparr> = [(js ''2021-01.md'', js ''second'')]"
proof -
  let ?d1 = "\<lparr>MarkdownYAMLProperty.meta =
              \<lparr>created = Some 1000, modified = Some 2000, title = js ''2021/01'', slug = js ''a'',
               rest = Map.empty\<rparr>, doc_text = js ''first''\<rparr>"
  let ?d2 = "\<lparr>MarkdownYAMLProperty.meta =
              \<lparr>created = Some 1000, modified = Some 2000, title = js ''2021-01'', slug = js ''b'',
               rest = Map.empty\<rparr>, doc_text = js ''second''\<rparr>"
  have n1: "entry_name \<lparr>archive_options.slug = None\<rparr> ?d1 = js ''2021-01.md''"
    by (simp add: entry_name_def js_def)
  have n2: "entry_name \<lparr>archive_options.slug = None\<rparr> ?d2 = js ''2021-01.md''"
    by (simp add: entry_name_def js_def)
  have archive: "generateArchive [?d1, ?d2] \<lparr>archive_options.slug = None\<rparr> =
      [(js ''2021-01.md'', js ''second'')]"
    by (simp add: generateArchive_def JSZip_new_def n1 n2)
  have differ: "js ''second'' \<noteq> js ''first''"
    by (simp add: js_def)
  from n1 archive differ show ?thesis by simp
qed

text \<open>
  Claim C8. There is no error branch: \<open>generateArchive\<close> returns an archive for every
  list of documents. Whatever documents come before it, the last document with a given
  entry name has exactly one entry in the archive, and that entry holds its text:
  earlier documents of the same name are overwritten. No name occurs twice in the
  archive.
\<close>

theorem generateArchive_last_write_wins:
  assumes "documents = before @ d # after"
    and "\<forall>e\<in>set after. entry_name options e \<noteq> entry_name options d"
  shows "length (filter (\<lambda>(name, data). name = entry_name options d)
                   (generateArchive documents options)) = 1
       \<and> map_of (generateArchive documents options) (entry_name options d) =
           Some (MarkdownYAMLProperty.doc_text d)
       \<and> distinct (map fst (generateArchive documents options))"
proof -
  have names: "distinct (map fst (generateArchive documents options))"
    by (simp add: generateArchive_keys)
  moreover have "entry_name options d \<in> set (map fst (generateArchive documents options))"
    using assms(1) by (simp add: generateArchive_keys)
  ultimately have one: "length (filter (\<lambda>(name, data). name = entry_name options d)
                   (generateArchive documents options)) = 1"
    by (rule count_distinct_key)
  have "map_of (generateArchive documents options) (entry_name options d) =
          Some (MarkdownYAMLProperty.doc_text d)"
    using assms by (simp add: generateArchive_map_of foldl_upd_other)
  with one names show ?thesis by simp
qed

theorem generateArchive_last_write_wins_witness:
  "entry_name \<lparr>archive_options.slug = None\<rparr>
      \<lparr>MarkdownYAMLProperty.meta =
          \<lparr>created = Some 1000, modified = Some 2000, title = js ''A/B'', slug = js ''a'',
           rest = Map.empty\<rparr>, doc_text = js ''one''\<rparr> = js ''A-B.md''
   \<and> entry_name \<lparr>archive_options.slug = None\<rparr>
      \<lparr>MarkdownYAMLProperty.meta =
          \<lparr>created = Some 1000, modified = Some 2000, title = js ''A-B'', slug = js ''b'',
           rest = Map.empty\<rparr>, doc_text = js ''two''\<rparr> = js ''A-B.md''
   \<and> length (filter (\<lambda>(name, data). name = js ''A-B.md'')
        (generateArchive
          [\<lparr>MarkdownYAMLProperty.meta =
              \<lparr>created = Some 1000, modified = Some 2000, title = js ''A/B'', slug = js ''a'',
               rest = Map.empty\<rparr>, doc_text = js ''one''\<rparr>,
           \<lparr>MarkdownYAMLProperty.meta =
              \<lparr>created = Some 1000, modified = Some 2000, title = js ''A-B'', slug = js ''b'',
               rest = Map.empty\<rparr>, doc_text = js ''two''\<rparr>]
          \<lparr>archive_options.slug = None\<rparr>)) = 1
   \<and> map_of
        (generateArchive
          [\<lparr>MarkdownYAMLProperty.meta =
              \<lparr>created = Some 1000, modified = Some 2000, title = js ''A/B'', slug = js ''a'',
               rest = Map.empty\<rparr>, doc_text = js ''one''\<rparr>,
           \<lparr>MarkdownYAMLProperty.meta =
              \<lparr>created = Some 1000, modified = Some 2000, title = js ''A-B'', slug = js ''b'',
               rest = Map.empty\<rparr>, doc_text = js ''two''\<rparr>]
          \<lparr>archive_options.slug = None\<rparr>) (js ''A-B.md'') = Some (js ''two'')"
proof -
  let ?d1 = "\<lparr>MarkdownYAMLProperty.meta =
          \<lparr>created = Some 1000, modified = Some 2000, title = js ''A/B'', slug = js ''a'',
           rest = Map.empty\<rparr>, doc_text = js ''one''\<rparr>"
  let ?d2 = "\<lparr>MarkdownYAMLProperty.meta =
          \<lparr>created = Some 1000, modified = Some 2000, title = js ''A-B'', slug = js ''b'',
           rest = Map.empty\<rparr>, doc_text = js ''two''\<rparr>"
  have n1: "entry_name \<lparr>archive_options.slug = None\<rparr> ?d1 = js ''A-B.md''"
    by (simp add: entry_name_def js_def)
  have n2: "entry_name \<lparr>archive_options.slug = None\<rparr> ?d2 = js ''A-B.md''"
    by (simp add: entry_name_def js_def)
  have split: "[?d1, ?d2] = [?d1] @ ?d2 # []" by simp
  have later: "\<forall>e\<in>set []. entry_name \<lparr>archive_options.slug = None\<rparr> e
                 \<noteq> entry_name \<lparr>archive_options.slug = None\<rparr> ?d2"
    by simp
  from generateArchive_last_write_wins [OF split later] n1 n2
  show ?thesis by simp
qed

section \<open>Properties of trim\<close>

lemma trim_end_append:
  "xs \<noteq> [] \<Longrightarrow> \<not> is_white_space (last xs) \<Longrightarrow> trim_end (xs @ ys) = xs @ trim_end ys"
proof -
  assume ne: "xs \<noteq> []" and nw: "\<not> is_white_space (last xs)"
  from ne obtain zs z where xs: "xs = zs @ [z]"
    by (cases xs rule: rev_cases) auto
  with nw have keep: "dropWhile is_white_space (rev xs) = rev xs" by simp
  show ?thesis
    by (simp add: trim_end_def dropWhile_append keep)
qed

lemma trim_end_last:
  "trim_end s \<noteq> [] \<Longrightarrow> \<not> is_white_space (last (trim_end s))"
  unfolding trim_end_def
  by (metis hd_dropWhile last_rev rev_is_Nil_conv)

lemma trim_last: "trim t \<noteq> [] \<Longrightarrow> \<not> is_white_space (last (trim t))"
  by (simp add: trim_def trim_end_last)

lemma line_feed_white_space: "is_white_space 0x0A"
  by (simp add: is_white_space_def)

lemma trim_end_nl: "trim_end nl = []"
  by (simp add: trim_end_def nl_def line_feed_white_space)

lemma dash_not_white_space: "\<not> is_white_space 0x2D"
  by (simp add: is_white_space_def)

lemma trim_start_nl_dashes: "trim_start (nl @ js ''---'' @ r) = js ''---'' @ r"
  by (simp add: trim_start_def nl_def js_def dash_not_white_space line_feed_white_space)

lemma trim_delimited:
  "trim (nl @ js ''---'' @ nl @ y @ nl @ js ''---'' @ z) =
     js ''---'' @ nl @ y @ nl @ js ''---'' @ trim_end z"
proof -
  have "trim_end ((js ''---'' @ nl @ y @ nl @ js ''---'') @ z) =
          (js ''---'' @ nl @ y @ nl @ js ''---'') @ trim_end z"
    by (rule trim_end_append) (simp_all add: js_def dash_not_white_space)
  then show ?thesis
    by (simp add: trim_def trim_start_nl_dashes)
qed

lemma trim_end_body:
  assumes "b \<noteq> []" and "\<not> is_white_space (last b)"
  shows "trim_end (p @ b @ nl) = p @ b"
proof -
  have "trim_end ((p @ b) @ nl) = (p @ b) @ trim_end nl"
    using assms by (intro trim_end_append) simp_all
  then show ?thesis by (simp add: trim_end_nl)
qed

lemma trim_start_trim_end:
  "trim_start (trim_end (trim_start s)) = trim_end (trim_start s)"
proof (cases "trim_end (trim_start s) = []")
  case True
  then show ?thesis by (simp add: trim_start_def)
next
  case False
  let ?u = "trim_start s"
  have prefix: "?u = trim_end ?u @ rev (takeWhile is_white_space (rev ?u))"
    unfolding trim_end_def
    by (metis rev_append rev_rev_ident takeWhile_dropWhile_id)
  with False have "hd (trim_end ?u) = hd ?u"
    by (metis hd_append2)
  moreover from False prefix have "?u \<noteq> []" by auto
  then have "\<not> is_white_space (hd ?u)"
    unfolding trim_start_def by (rule hd_dropWhile)
  ultimately have "\<not> is_white_space (hd (trim_end ?u))" by simp
  then show ?thesis
    unfolding trim_start_def [of "trim_end ?u"] by (simp add: dropWhile_eq_self_iff)
qed

lemma trim_end_idem: "trim_end (trim_end s) = trim_end s"
  by (simp add: trim_end_def)

lemma trim_idem: "trim (trim s) = trim s"
  by (simp add: trim_def trim_start_trim_end trim_end_idem)

lemma trim_hello: "trim (js ''hello'' @ nl) = js ''hello''"
  by (simp add: trim_def trim_start_def trim_end_def js_def nl_def is_white_space_def)

lemma trim_title_line: "trim (js ''title: A'' @ nl) = js ''title: A''"
  by (simp add: trim_def trim_start_def trim_end_def js_def nl_def is_white_space_def)

section \<open>Properties of markdownBuilder\<close>

lemma header_date:
  "header m (js ''date'') =
     (case rest m (js ''date'') of None \<Rightarrow> Some (JDate (created m)) | Some v \<Rightarrow> Some v)"
  by (simp add: header_def meta_object_def omit_def map_add_def js_def split: option.splits)

lemma header_updated:
  "header m (js ''updated'') =
     (case rest m (js ''updated'') of None \<Rightarrow> Some (JDate (modified m)) | Some v \<Rightarrow> Some v)"
  by (simp add: header_def meta_object_def omit_def map_add_def js_def split: option.splits)

lemma header_title: "header m (js ''title'') = Some (JStr (title m))"
  by (simp add: header_def meta_object_def omit_def map_add_def js_def)

lemma header_created_modified:
  "header m (js ''created'') = None \<and> header m (js ''modified'') = None"
  by (simp add: header_def meta_object_def omit_def map_add_def js_def)

lemma header_other:
  "k \<notin> {js ''date'', js ''updated'', js ''title'', js ''created'', js ''modified''} \<Longrightarrow>
   header m k = meta_object m k"
  by (simp add: header_def omit_def map_add_def split: option.splits)

lemma markdownBuilder_raises:
  "dump (header m) = Inl e \<Longrightarrow>
   markdownBuilder dump \<lparr>MarkdownYAMLProperty.meta = m, doc_text = t\<rparr> (Some True) showHeader =
     Inl e"
  by (simp add: markdownBuilder_def Let_def)

lemma markdownBuilder_yaml:
  "dump (header m) = Inr y \<Longrightarrow>
   markdownBuilder dump \<lparr>MarkdownYAMLProperty.meta = m, doc_text = t\<rparr> (Some True) showHeader =
     Inr (js ''---'' @ nl @ trim y @ nl @ js ''---''
          @ trim_end (nl @ nl
              @ (if showHeader = Some True then js ''# '' @ title m @ nl @ nl else [])
              @ nl @ trim t @ nl))"
  by (simp add: markdownBuilder_def Let_def trim_delimited)

lemma markdownBuilder_yaml_body:
  assumes "trim t \<noteq> []" and "dump (header m) = Inr y"
  shows "markdownBuilder dump \<lparr>MarkdownYAMLProperty.meta = m, doc_text = t\<rparr> (Some True) showHeader =
     Inr (js ''---'' @ nl @ trim y @ nl @ js ''---'' @ nl @ nl
          @ (if showHeader = Some True then js ''# '' @ title m @ nl @ nl else [])
          @ nl @ trim t)"
proof -
  let ?h = "if showHeader = Some True then js ''# '' @ title m @ nl @ nl else []"
  have "trim_end ((nl @ nl @ ?h @ nl) @ trim t @ nl) = (nl @ nl @ ?h @ nl) @ trim t"
    using assms(1) trim_last [OF assms(1)] by (rule trim_end_body)
  with assms(2) markdownBuilder_yaml [of dump m y t showHeader] show ?thesis
    by simp
qed

lemma markdownBuilder_trimmed:
  "markdownBuilder dump property (Some True) showHeader = Inr r \<Longrightarrow> trim r = r"
  by (auto simp: markdownBuilder_def Let_def trim_idem split: sum.splits)

text \<open>
  Claim C4, amended. For metadata that has no field of its own named \<open>date\<close> or
  \<open>updated\<close>, the header object has \<open>date\<close> equal to \<open>created\<close>, \<open>updated\<close> equal to
  \<open>modified\<close>, the title, no \<open>created\<close> and no \<open>modified\<close>, and every other field of the
  metadata unchanged. With \<open>includeYAMLHeader\<close> true, when \<open>dump\<close> serializes that header
  the result is the line \<open>---\<close>, the trimmed serialization, the line \<open>---\<close>, and then,
  trimmed at the end, a blank line, the heading \<open># title\<close> with its blank line when
  \<open>showHeader\<close> is true, a further newline and the trimmed body; the result is a fixed
  point of \<open>trim\<close>. When \<open>dump\<close> raises, \<open>markdownBuilder\<close> raises the same exception and
  returns no string.
\<close>

theorem markdownBuilder_yaml_document:
  assumes "rest m (js ''date'') = None" and "rest m (js ''updated'') = None"
  shows "header m (js ''date'') = Some (JDate (created m))
       \<and> header m (js ''updated'') = Some (JDate (modified m))
       \<and> header m (js ''title'') = Some (JStr (title m))
       \<and> header m (js ''created'') = None
       \<and> header m (js ''modified'') = None
       \<and> (\<forall>k. k \<notin> {js ''date'', js ''updated'', js ''title'', js ''created'', js ''modified''}
              \<longrightarrow> header m k = meta_object m k)
       \<and> (\<forall>e. dump (header m) = Inl e \<longrightarrow>
             markdownBuilder dump \<lparr>MarkdownYAMLProperty.meta = m, doc_text = t\<rparr>
               (Some True) showHeader = Inl e)
       \<and> (\<forall>y. dump (header m) = Inr y \<longrightarrow>
             markdownBuilder dump \<lparr>MarkdownYAMLProperty.meta = m, doc_text = t\<rparr>
               (Some True) showHeader =
               Inr (js ''---'' @ nl @ trim y @ nl @ js ''---''
                    @ trim_end (nl @ nl
                        @ (if showHeader = Some True then js ''# '' @ title m @ nl @ nl else [])
                        @ nl @ trim t @ nl))
           \<and> (trim t \<noteq> [] \<longrightarrow>
               markdownBuilder dump \<lparr>MarkdownYAMLProperty.meta = m, doc_text = t\<rparr>
                 (Some True) showHeader =
                 Inr (js ''---'' @ nl @ trim y @ nl @ js ''---'' @ nl @ nl
                      @ (if showHeader = Some True then js ''# '' @ title m @ nl @ nl else [])
                      @ nl @ trim t)))
       \<and> (\<forall>r. markdownBuilder dump \<lparr>MarkdownYAMLProperty.meta = m, doc_text = t\<rparr>
                 (Some True) showHeader = Inr r \<longrightarrow> trim r = r)"
proof -
  have fields: "header m (js ''date'') = Some (JDate (created m))
       \<and> header m (js ''updated'') = Some (JDate (modified m))"
    using assms by (simp add: header_date header_updated)
  have others: "\<forall>k. k \<notin> {js ''date'', js ''updated'', js ''title'', js ''created'', js ''modified''}
              \<longrightarrow> header m k = meta_object m k"
    using header_other [of _ m] by blast
  have raises: "\<forall>e. dump (header m) = Inl e \<longrightarrow>
             markdownBuilder dump \<lparr>MarkdownYAMLProperty.meta = m, doc_text = t\<rparr>
               (Some True) showHeader = Inl e"
    using markdownBuilder_raises [of dump m _ t showHeader] by blast
  have returns: "\<forall>y. dump (header m) = Inr y \<longrightarrow>
             markdownBuilder dump \<lparr>MarkdownYAMLProperty.meta = m, doc_text = t\<rparr>
               (Some True) showHeader =
               Inr (js ''---'' @ nl @ trim y @ nl @ js ''---''
                    @ trim_end (nl @ nl
                        @ (if showHeader = Some True then js ''# '' @ title m @ nl @ nl else [])
                        @ nl @ trim t @ nl))
           \<and> (trim t \<noteq> [] \<longrightarrow>
               markdownBuilder dump \<lparr>MarkdownYAMLProperty.meta = m, doc_text = t\<rparr>
                 (Some True) showHeader =
                 Inr (js ''---'' @ nl @ trim y @ nl @ js ''---'' @ nl @ nl
                      @ (if showHeader = Some True then js ''# '' @ title m @ nl @ nl else [])
                      @ nl @ trim t))"
    using markdownBuilder_yaml [of dump m _ t showHeader]
      markdownBuilder_yaml_body [of t dump m _ showHeader]
    by blast
  have trimmed: "\<forall>r. markdownBuilder dump \<lparr>MarkdownYAMLProperty.meta = m, doc_text = t\<rparr>
                 (Some True) showHeader = Inr r \<longrightarrow> trim r = r"
    using markdownBuilder_trimmed by blast
  from fields others raises returns trimmed header_title [of m] header_created_modified [of m]
  show ?thesis by blast
qed

theorem markdownBuilder_yaml_document_witness:
  "rest \<lparr>created = Some 1000, modified = Some 2000, title = js ''A'', slug = js ''a'',
         rest = [js ''tags'' \<mapsto> JArr [JStr (js ''x'')]]\<rparr> (js ''date'') = None
   \<and> rest \<lparr>created = Some 1000, modified = Some 2000, title = js ''A'', slug = js ''a'',
         rest = [js ''tags'' \<mapsto> JArr [JStr (js ''x'')]]\<rparr> (js ''updated'') = None
   \<and> header \<lparr>created = Some 1000, modified = Some 2000, title = js ''A'', slug = js ''a'',
         rest = [js ''tags'' \<mapsto> JArr [JStr (js ''x'')]]\<rparr> (js ''date'') = Some (JDate (Some 1000))
   \<and> header \<lparr>created = Some 1000, modified = Some 2000, title = js ''A'', slug = js ''a'',
         rest = [js ''tags'' \<mapsto> JArr [JStr (js ''x'')]]\<rparr> (js ''tags'') = Some (JArr [JStr (js ''x'')])
   \<and> markdownBuilder (\<lambda>h. Inr (js ''title: A'' @ nl))
        \<lparr>MarkdownYAMLProperty.meta =
           \<lparr>created = Some 1000, modified = Some 2000, title = js ''A'', slug = js ''a'',
            rest = [js ''tags'' \<mapsto> JArr [JStr (js ''x'')]]\<rparr>,
         doc_text = js ''hello'' @ nl\<rparr> (Some True) (Some True) =
       Inr (js ''---'' @ nl @ js ''title: A'' @ nl @ js ''---'' @ nl @ nl
            @ js ''# A'' @ nl @ nl @ nl @ js ''hello'')"
proof -
  let ?m = "\<lparr>created = Some 1000, modified = Some 2000, title = js ''A'', slug = js ''a'',
         rest = [js ''tags'' \<mapsto> JArr [JStr (js ''x'')]]\<rparr>"
  let ?dump = "\<lambda>h :: jsobject. Inr (js ''title: A'' @ nl) :: js_error + jsstring"
  have d: "rest ?m (js ''date'') = None" by (simp add: js_def)
  have u: "rest ?m (js ''updated'') = None" by (simp add: js_def)
  have tags: "js ''tags'' \<notin> {js ''date'', js ''updated'', js ''title'', js ''created'', js ''modified''}"
    by (simp add: js_def)
  have tags_val: "meta_object ?m (js ''tags'') = Some (JArr [JStr (js ''x'')])"
    by (simp add: meta_object_def js_def)
  have body: "trim (js ''hello'' @ nl) \<noteq> []"
    unfolding trim_hello by (simp add: js_def)
  have dumped: "?dump (header ?m) = Inr (js ''title: A'' @ nl)"
    by simp
  note doc = markdownBuilder_yaml_document
            [OF d u, of ?dump "js ''hello'' @ nl" "Some True"]
  from doc have date: "header ?m (js ''date'') = Some (JDate (Some 1000))"
    by simp
  from doc tags have "header ?m (js ''tags'') = meta_object ?m (js ''tags'')"
    by blast
  with tags_val have tags_kept: "header ?m (js ''tags'') = Some (JArr [JStr (js ''x'')])"
    by simp
  from doc body dumped have "markdownBuilder ?dump
        \<lparr>MarkdownYAMLProperty.meta = ?m, doc_text = js ''hello'' @ nl\<rparr> (Some True) (Some True) =
       Inr (js ''---'' @ nl @ trim (js ''title: A'' @ nl) @ nl @ js ''---'' @ nl @ nl
            @ (if Some True = Some True then js ''# '' @ title ?m @ nl @ nl else [])
            @ nl @ trim (js ''hello'' @ nl))"
    by blast
  then have built: "markdownBuilder ?dump
        \<lparr>MarkdownYAMLProperty.meta = ?m, doc_text = js ''hello'' @ nl\<rparr> (Some True) (Some True) =
       Inr (js ''---'' @ nl @ js ''title: A'' @ nl @ js ''---'' @ nl @ nl
            @ js ''# A'' @ nl @ nl @ nl @ js ''hello'')"
    unfolding trim_hello trim_title_line by (simp add: js_def)
  from d u date tags_kept built show ?thesis by blast
qed

text \<open>
  Claim C4 as stated fails for metadata with a field named \<open>date\<close>: the spread puts
  that field over the \<open>date\<close> taken from \<open>created\<close>, and the composed text carries it.
  It also fails where \<open>dump\<close> raises: for metadata whose \<open>created\<close> is an invalid Date
  and a \<open>dump\<close> that, as js-yaml does, raises \<open>RangeError\<close> for it, \<open>markdownBuilder\<close>
  returns no string.
\<close>

theorem markdownBuilder_yaml_date_counterexample:
  "header \<lparr>created = Some 1000, modified = Some 2000, title = js ''A'', slug = js ''a'',
          rest = [js ''date'' \<mapsto> JStr (js ''2020'')]\<rparr> (js ''date'') = Some (JStr (js ''2020''))
   \<and> header \<lparr>created = Some 1000, modified = Some 2000, title = js ''A'', slug = js ''a'',
          rest = [js ''date'' \<mapsto> JStr (js ''2020'')]\<rparr> (js ''date'') \<noteq> Some (JDate (Some 1000))
   \<and> markdownBuilder
        (\<lambda>h. case h (js ''date'') of
                Some (JStr s) \<Rightarrow> Inr (js ''date: '' @ s)
              | Some (JDate None) \<Rightarrow> Inl RangeError
              | _ \<Rightarrow> Inr (js ''date: created''))
        \<lparr>MarkdownYAMLProperty.meta =
           \<lparr>created = Some 1000, modified = Some 2000, title = js ''A'', slug = js ''a'',
            rest = [js ''date'' \<mapsto> JStr (js ''2020'')]\<rparr>,
         doc_text = js ''hello'' @ nl\<rparr> (Some True) None =
       Inr (js ''---'' @ nl @ js ''date: 2020'' @ nl @ js ''---'' @ nl @ nl @ nl @ js ''hello'')
   \<and> markdownBuilder
        (\<lambda>h. case h (js ''date'') of
                Some (JStr s) \<Rightarrow> Inr (js ''date: '' @ s)
              | Some (JDate None) \<Rightarrow> Inl RangeError
              | _ \<Rightarrow> Inr (js ''date: created''))
        \<lparr>MarkdownYAMLProperty.meta =
           \<lparr>created = None, modified = Some 2000, title = js ''A'', slug = js ''a'',
            rest = Map.empty\<rparr>,
         doc_text = js ''hello'' @ nl\<rparr> (Some True) None =
       Inl RangeError"
proof -
  let ?m = "\<lparr>created = Some 1000, modified = Some 2000, title = js ''A'', slug = js ''a'',
          rest = [js ''date'' \<mapsto> JStr (js ''2020'')]\<rparr>"
  let ?i = "\<lparr>created = None, modified = Some 2000, title = js ''A'', slug = js ''a'',
            rest = Map.empty\<rparr>"
  let ?dump = "\<lambda>h :: jsobject. case h (js ''date'') of
                Some (JStr s) \<Rightarrow> Inr (js ''date: '' @ s)
              | Some (JDate None) \<Rightarrow> Inl RangeError
              | _ \<Rightarrow> Inr (js ''date: created'')"
  have h: "header ?m (js ''date'') = Some (JStr (js ''2020''))"
    by (simp add: header_date)
  have y: "trim (js ''date: '' @ js ''2020'') = js ''date: 2020''"
    by (simp add: trim_def trim_start_def trim_end_def js_def is_white_space_def)
  have body: "trim (js ''hello'' @ nl) \<noteq> []"
    unfolding trim_hello by (simp add: js_def)
  have dumped: "?dump (header ?m) = Inr (js ''date: '' @ js ''2020'')"
    by (simp add: h)
  have built: "markdownBuilder ?dump
        \<lparr>MarkdownYAMLProperty.meta = ?m, doc_text = js ''hello'' @ nl\<rparr> (Some True) None =
       Inr (js ''---'' @ nl @ js ''date: 2020'' @ nl @ js ''---'' @ nl @ nl @ nl @ js ''hello'')"
    using body dumped
      markdownBuilder_yaml_body [of "js ''hello'' @ nl" ?dump ?m "js ''date: '' @ js ''2020''" None]
    by (simp add: trim_hello y)
  have "header ?i (js ''date'') = Some (JDate None)"
    by (simp add: header_date)
  then have "?dump (header ?i) = Inl RangeError"
    by simp
  then have raised: "markdownBuilder ?dump
        \<lparr>MarkdownYAMLProperty.meta = ?i, doc_text = js ''hello'' @ nl\<rparr> (Some True) None =
       Inl RangeError"
    using markdownBuilder_raises [of ?dump ?i RangeError "js ''hello'' @ nl" None] by blast
  from h built raised show ?thesis by simp
qed

section \<open>Properties of genDate\<close>

lemma genDate_no_meta:
  "genDate to_time clock n \<lparr>DatatypeDto.meta = None, doc_text = b\<rparr> =
     ([js ''created'' \<mapsto> JDate (Some (clock n)), js ''modified'' \<mapsto> JDate (Some (clock (Suc n)))],
      Suc (Suc n))"
  by (simp add: genDate_def new_Date_now_def)

lemma new_Date_Date: "new_Date to_time (JDate t) = JDate t"
  by (simp add: new_Date_def)

lemma created_neq_modified: "js ''created'' \<noteq> js ''modified''"
  by (simp add: js_def)

lemma genDate_dom:
  "dom (fst (genDate to_time clock n item)) = {js ''created'', js ''modified''}"
  by (auto simp: genDate_def new_Date_now_def Let_def split: option.splits if_splits)

lemma genDate_created:
  "get (fst (genDate to_time clock n item)) (js ''created'') =
     (case DatatypeDto.meta item of
        None \<Rightarrow> JDate (Some (clock n))
      | Some m \<Rightarrow> if truthy (get m (js ''date'')) then new_Date to_time (get m (js ''date''))
                  else JDate (Some (clock n)))"
  using created_neq_modified
  by (simp add: genDate_def new_Date_now_def Let_def get_def split: option.splits)

lemma genDate_modified:
  "get (fst (genDate to_time clock n item)) (js ''modified'') =
     (case DatatypeDto.meta item of
        None \<Rightarrow> JDate (Some (clock (Suc n)))
      | Some m \<Rightarrow> if truthy (get m (js ''updated'')) then new_Date to_time (get m (js ''updated''))
                  else if truthy (get m (js ''date'')) then new_Date to_time (get m (js ''date''))
                  else JDate (Some (clock (Suc n))))"
  by (simp add: genDate_def new_Date_now_def Let_def get_def split: option.splits)

lemma genDate_header:
  assumes "rest m (js ''date'') = None" and "rest m (js ''updated'') = None"
  shows "genDate to_time clock n \<lparr>DatatypeDto.meta = Some (header m), doc_text = b\<rparr> =
           ([js ''created'' \<mapsto> JDate (created m), js ''modified'' \<mapsto> JDate (modified m)], n)"
  using assms
  by (simp add: genDate_def Let_def get_def header_date header_updated new_Date_def)

text \<open>
  Claim C6, amended. \<open>genDate\<close> returns an object with exactly the keys \<open>created\<close> and
  \<open>modified\<close>. \<open>created\<close> is \<open>new Date(date)\<close> when the item has metadata with a truthy
  \<open>date\<close>, and a reading of the clock otherwise; \<open>modified\<close> is \<open>new Date(updated)\<close> when
  \<open>updated\<close> is truthy, else \<open>new Date(date)\<close> when \<open>date\<close> is truthy, else a reading of
  the clock. A Date is truthy and \<open>new Date\<close> of it has the same time value. No other
  field is in the result.
\<close>

theorem genDate_created_modified:
  "dom (fst (genDate to_time clock n item)) = {js ''created'', js ''modified''}
   \<and> get (fst (genDate to_time clock n item)) (js ''created'') =
       (case DatatypeDto.meta item of
          None \<Rightarrow> JDate (Some (clock n))
        | Some m \<Rightarrow>
            if truthy (get m (js ''date'')) then new_Date to_time (get m (js ''date''))
            else JDate (Some (clock n)))
   \<and> get (fst (genDate to_time clock n item)) (js ''modified'') =
       (case DatatypeDto.meta item of
          None \<Rightarrow> JDate (Some (clock (Suc n)))
        | Some m \<Rightarrow>
            if truthy (get m (js ''updated'')) then new_Date to_time (get m (js ''updated''))
            else if truthy (get m (js ''date'')) then new_Date to_time (get m (js ''date''))
            else JDate (Some (clock (Suc n))))
   \<and> truthy (JDate t) \<and> new_Date to_time (JDate t) = JDate t"
  using genDate_dom [of to_time clock n item] genDate_created [of to_time clock n item]
    genDate_modified [of to_time clock n item] new_Date_Date [of to_time t]
  by simp

theorem genDate_created_modified_witness:
  "get (fst (genDate (\<lambda>v. None) (\<lambda>k. 5000 + int k) 0
       \<lparr>DatatypeDto.meta = Some [js ''title'' \<mapsto> JStr (js ''T''), js ''date'' \<mapsto> JDate (Some 1000)],
        doc_text = js ''hello''\<rparr>)) (js ''created'') = JDate (Some 1000)
   \<and> get (fst (genDate (\<lambda>v. None) (\<lambda>k. 5000 + int k) 0
       \<lparr>DatatypeDto.meta = Some [js ''title'' \<mapsto> JStr (js ''T''), js ''date'' \<mapsto> JDate (Some 1000)],
        doc_text = js ''hello''\<rparr>)) (js ''modified'') = JDate (Some 1000)
   \<and> get (fst (genDate (\<lambda>v. None) (\<lambda>k. 5000 + int k) 0
       \<lparr>DatatypeDto.meta = None, doc_text = js ''hello''\<rparr>)) (js ''created'') = JDate (Some 5000)
   \<and> get (fst (genDate (\<lambda>v. None) (\<lambda>k. 5000 + int k) 0
       \<lparr>DatatypeDto.meta = None, doc_text = js ''hello''\<rparr>)) (js ''modified'') = JDate (Some 5001)"
  using genDate_created_modified
          [of "\<lambda>v. None" "\<lambda>k. 5000 + int k" 0
              "\<lparr>DatatypeDto.meta = Some [js ''title'' \<mapsto> JStr (js ''T''), js ''date'' \<mapsto> JDate (Some 1000)],
                doc_text = js ''hello''\<rparr>" "Some 1000"]
        genDate_created_modified
          [of "\<lambda>v. None" "\<lambda>k. 5000 + int k" 0
              "\<lparr>DatatypeDto.meta = None, doc_text = js ''hello''\<rparr>" "Some 1000"]
  by (simp add: get_def js_def)

lemma note_model_other:
  "k \<notin> {js ''title'', js ''text'', js ''created'', js ''modified''} \<Longrightarrow>
   fst (note_model to_time clock n item) k = None"
proof -
  assume k: "k \<notin> {js ''title'', js ''text'', js ''created'', js ''modified''}"
  then have "k \<notin> dom (fst (genDate to_time clock n item))"
    by (simp add: genDate_dom)
  then have "fst (genDate to_time clock n item) k = None" by blast
  with k show ?thesis
    by (simp add: note_model_def Let_def case_prod_unfold map_add_def)
qed

lemma insertNotesToDb_models_single:
  "fst (insertNotesToDb_models to_time clock n [item]) = [fst (note_model to_time clock n item)]"
  by (simp add: case_prod_unfold Let_def)

text \<open>
  Claim C6 as stated fails in its last part: for an item whose metadata has \<open>title\<close>,
  \<open>date\<close> and \<open>tags\<close>, the result of \<open>genDate\<close> has no \<open>tags\<close>, and neither has the record
  that \<open>insertNotesToDb\<close> builds from the item.
\<close>

theorem genDate_passes_nothing_counterexample:
  "[js ''title'' \<mapsto> JStr (js ''T''), js ''date'' \<mapsto> JDate (Some 1000),
    js ''tags'' \<mapsto> JArr [JStr (js ''x'')]] (js ''tags'') = Some (JArr [JStr (js ''x'')])
   \<and> fst (genDate (\<lambda>v. None) (\<lambda>k. 5000) 0
        \<lparr>DatatypeDto.meta =
           Some [js ''title'' \<mapsto> JStr (js ''T''), js ''date'' \<mapsto> JDate (Some 1000),
                 js ''tags'' \<mapsto> JArr [JStr (js ''x'')]],
         doc_text = js ''hello''\<rparr>) (js ''tags'') = None
   \<and> map (\<lambda>model. model (js ''tags''))
        (fst (insertNotesToDb_models (\<lambda>v. None) (\<lambda>k. 5000) 0
          [\<lparr>DatatypeDto.meta =
             Some [js ''title'' \<mapsto> JStr (js ''T''), js ''date'' \<mapsto> JDate (Some 1000),
                   js ''tags'' \<mapsto> JArr [JStr (js ''x'')]],
            doc_text = js ''hello''\<rparr>])) = [None]"
proof -
  let ?item = "\<lparr>DatatypeDto.meta =
           Some [js ''title'' \<mapsto> JStr (js ''T''), js ''date'' \<mapsto> JDate (Some 1000),
                 js ''tags'' \<mapsto> JArr [JStr (js ''x'')]],
         doc_text = js ''hello''\<rparr>"
  have "js ''tags'' \<notin> {js ''created'', js ''modified''}"
    by (simp add: js_def)
  then have "js ''tags'' \<notin> dom (fst (genDate (\<lambda>v. None) (\<lambda>k. 5000) 0 ?item))"
    unfolding genDate_dom by blast
  then have dates: "fst (genDate (\<lambda>v. None) (\<lambda>k. 5000) 0 ?item) (js ''tags'') = None"
    by blast
  have "js ''tags'' \<notin> {js ''title'', js ''text'', js ''created'', js ''modified''}"
    by (simp add: js_def)
  then have dropped: "fst (note_model (\<lambda>v. None) (\<lambda>k. 5000) 0 ?item) (js ''tags'') = None"
    by (rule note_model_other)
  have supplied: "[js ''title'' \<mapsto> JStr (js ''T''), js ''date'' \<mapsto> JDate (Some 1000),
    js ''tags'' \<mapsto> JArr [JStr (js ''x'')]] (js ''tags'') = Some (JArr [JStr (js ''x'')])"
    by simp
  from supplied dates dropped show ?thesis
    by (simp only: insertNotesToDb_models_single list.map)
qed

text \<open>
  Claim C5, amended. For metadata \<open>m\<close> that has no field of its own named \<open>date\<close> or
  \<open>updated\<close>, the composed header has \<open>date\<close> equal to \<open>m.created\<close> and \<open>updated\<close> equal to
  \<open>m.modified\<close>, and \<open>genDate\<close> on an item with that header as its metadata returns,
  without reading the clock, an object that is equal to \<open>m\<close> on \<open>created\<close> and \<open>modified\<close>
  and has no other field. The title and every other field of \<open>m\<close> are in the header
  unchanged; \<open>genDate\<close> does not return them.
\<close>

theorem header_genDate_round_trip:
  assumes "rest m (js ''date'') = None" and "rest m (js ''updated'') = None"
  shows "get (header m) (js ''date'') = JDate (created m)
       \<and> get (header m) (js ''updated'') = JDate (modified m)
       \<and> genDate to_time clock n \<lparr>DatatypeDto.meta = Some (header m), doc_text = b\<rparr> =
           ([js ''created'' \<mapsto> JDate (created m), js ''modified'' \<mapsto> JDate (modified m)], n)
       \<and> fst (genDate to_time clock n \<lparr>DatatypeDto.meta = Some (header m), doc_text = b\<rparr>)
             (js ''created'') = meta_object m (js ''created'')
       \<and> fst (genDate to_time clock n \<lparr>DatatypeDto.meta = Some (header m), doc_text = b\<rparr>)
             (js ''modified'') = meta_object m (js ''modified'')
       \<and> (\<forall>k. k \<notin> {js ''created'', js ''modified''} \<longrightarrow>
             fst (genDate to_time clock n \<lparr>DatatypeDto.meta = Some (header m), doc_text = b\<rparr>) k
               = None)
       \<and> get (header m) (js ''title'') = JStr (title m)
       \<and> (\<forall>k. k \<notin> {js ''date'', js ''updated'', js ''title'', js ''created'', js ''modified''}
              \<longrightarrow> get (header m) k = get (meta_object m) k)"
proof -
  let ?r = "fst (genDate to_time clock n \<lparr>DatatypeDto.meta = Some (header m), doc_text = b\<rparr>)"
  have dates: "get (header m) (js ''date'') = JDate (created m)
       \<and> get (header m) (js ''updated'') = JDate (modified m)"
    using assms by (simp add: get_def header_date header_updated)
  have recovered: "genDate to_time clock n \<lparr>DatatypeDto.meta = Some (header m), doc_text = b\<rparr> =
           ([js ''created'' \<mapsto> JDate (created m), js ''modified'' \<mapsto> JDate (modified m)], n)"
    using assms by (rule genDate_header)
  have same: "?r (js ''created'') = meta_object m (js ''created'')
       \<and> ?r (js ''modified'') = meta_object m (js ''modified'')"
    unfolding recovered by (simp add: meta_object_def js_def)
  have "dom ?r = {js ''created'', js ''modified''}"
    by (rule genDate_dom)
  then have nothing_else: "\<forall>k. k \<notin> {js ''created'', js ''modified''} \<longrightarrow> ?r k = None"
    by blast
  have title: "get (header m) (js ''title'') = JStr (title m)"
    by (simp add: get_def header_title)
  have others: "\<forall>k. k \<notin> {js ''date'', js ''updated'', js ''title'', js ''created'', js ''modified''}
              \<longrightarrow> get (header m) k = get (meta_object m) k"
    using header_other [of _ m] by (simp add: get_def)
  from dates recovered same nothing_else title others
  show ?thesis by blast
qed

theorem header_genDate_round_trip_witness:
  "rest \<lparr>created = Some 1000, modified = Some 2000, title = js ''A'', slug = js ''a'',
         rest = [js ''tags'' \<mapsto> JArr [JStr (js ''x'')]]\<rparr> (js ''date'') = None
   \<and> rest \<lparr>created = Some 1000, modified = Some 2000, title = js ''A'', slug = js ''a'',
         rest = [js ''tags'' \<mapsto> JArr [JStr (js ''x'')]]\<rparr> (js ''updated'') = None
   \<and> genDate (\<lambda>v. None) (\<lambda>k. 5000) 0
        \<lparr>DatatypeDto.meta =
           Some (header \<lparr>created = Some 1000, modified = Some 2000, title = js ''A'',
                         slug = js ''a'', rest = [js ''tags'' \<mapsto> JArr [JStr (js ''x'')]]\<rparr>),
         doc_text = js ''hello''\<rparr> =
       ([js ''created'' \<mapsto> JDate (Some 1000), js ''modified'' \<mapsto> JDate (Some 2000)], 0)
   \<and> get (header \<lparr>created = Some 1000, modified = Some 2000, title = js ''A'',
                    slug = js ''a'', rest = [js ''tags'' \<mapsto> JArr [JStr (js ''x'')]]\<rparr>)
         (js ''slug'') = JStr (js ''a'')"
proof -
  let ?m = "\<lparr>created = Some 1000, modified = Some 2000, title = js ''A'', slug = js ''a'',
         rest = [js ''tags'' \<mapsto> JArr [JStr (js ''x'')]]\<rparr>"
  have d: "rest ?m (js ''date'') = None" by (simp add: js_def)
  have u: "rest ?m (js ''updated'') = None" by (simp add: js_def)
  have slug: "js ''slug'' \<notin> {js ''date'', js ''updated'', js ''title'', js ''created'', js ''modified''}"
    by (simp add: js_def)
  have slug_val: "get (meta_object ?m) (js ''slug'') = JStr (js ''a'')"
    by (simp add: meta_object_def get_def)
  note rt = header_genDate_round_trip [OF d u, of "\<lambda>v. None" "\<lambda>k. 5000" 0 "js ''hello''"]
  from rt slug have "get (header ?m) (js ''slug'') = get (meta_object ?m) (js ''slug'')"
    by blast
  with slug_val have kept: "get (header ?m) (js ''slug'') = JStr (js ''a'')" by simp
  from rt have dates: "genDate (\<lambda>v. None) (\<lambda>k. 5000) 0
        \<lparr>DatatypeDto.meta = Some (header ?m), doc_text = js ''hello''\<rparr> =
       ([js ''created'' \<mapsto> JDate (Some 1000), js ''modified'' \<mapsto> JDate (Some 2000)], 0)"
    by simp
  from d u dates kept show ?thesis by blast
qed

text \<open>
  Claim C5 as stated fails twice. For metadata with a field named \<open>date\<close> the header's
  \<open>date\<close> is that field, and \<open>genDate\<close> returns it as \<open>created\<close>. And for metadata without
  such a field, with a title, a slug and \<open>tags\<close>, what \<open>genDate\<close> returns for the composed
  header has no title, no slug and no \<open>tags\<close>: it is not equal to the metadata on those
  fields.
\<close>

theorem header_genDate_round_trip_counterexample:
  "created \<lparr>created = Some 1000, modified = Some 2000, title = js ''A'', slug = js ''a'',
            rest = [js ''date'' \<mapsto> JDate (Some 5)]\<rparr> = Some 1000
   \<and> get (header \<lparr>created = Some 1000, modified = Some 2000, title = js ''A'', slug = js ''a'',
                    rest = [js ''date'' \<mapsto> JDate (Some 5)]\<rparr>) (js ''date'') = JDate (Some 5)
   \<and> fst (genDate (\<lambda>v. None) (\<lambda>k. 5000) 0
        \<lparr>DatatypeDto.meta =
           Some (header \<lparr>created = Some 1000, modified = Some 2000, title = js ''A'',
                         slug = js ''a'', rest = [js ''date'' \<mapsto> JDate (Some 5)]\<rparr>),
         doc_text = js ''hello''\<rparr>) (js ''created'') = Some (JDate (Some 5))
   \<and> meta_object \<lparr>created = Some 1000, modified = Some 2000, title = js ''A'', slug = js ''a'',
                   rest = [js ''tags'' \<mapsto> JArr [JStr (js ''x'')]]\<rparr> (js ''title'')
       = Some (JStr (js ''A''))
   \<and> meta_object \<lparr>created = Some 1000, modified = Some 2000, title = js ''A'', slug = js ''a'',
                   rest = [js ''tags'' \<mapsto> JArr [JStr (js ''x'')]]\<rparr> (js ''slug'')
       = Some (JStr (js ''a''))
   \<and> meta_object \<lparr>created = Some 1000, modified = Some 2000, title = js ''A'', slug = js ''a'',
                   rest = [js ''tags'' \<mapsto> JArr [JStr (js ''x'')]]\<rparr> (js ''tags'')
       = Some (JArr [JStr (js ''x'')])
   \<and> fst (genDate (\<lambda>v. None) (\<lambda>k. 5000) 0
        \<lparr>DatatypeDto.meta =
           Some (header \<lparr>created = Some 1000, modified = Some 2000, title = js ''A'',
                         slug = js ''a'', rest = [js ''tags'' \<mapsto> JArr [JStr (js ''x'')]]\<rparr>),
         doc_text = js ''hello''\<rparr>) (js ''title'') = None
   \<and> fst (genDate (\<lambda>v. None) (\<lambda>k. 5000) 0
        \<lparr>DatatypeDto.meta =
           Some (header \<lparr>created = Some 1000, modified = Some 2000, title = js ''A'',
                         slug = js ''a'', rest = [js ''tags'' \<mapsto> JArr [JStr (js ''x'')]]\<rparr>),
         doc_text = js ''hello''\<rparr>) (js ''slug'') = None
   \<and> fst (genDate (\<lambda>v. None) (\<lambda>k. 5000) 0
        \<lparr>DatatypeDto.meta =
           Some (header \<lparr>created = Some 1000, modified = Some 2000, title = js ''A'',
                         slug = js ''a'', rest = [js ''tags'' \<mapsto> JArr [JStr (js ''x'')]]\<rparr>),
         doc_text = js ''hello''\<rparr>) (js ''tags'') = None"
proof -
  let ?m = "\<lparr>created = Some 1000, modified = Some 2000, title = js ''A'', slug = js ''a'',
            rest = [js ''date'' \<mapsto> JDate (Some 5)]\<rparr>"
  let ?a = "\<lparr>created = Some 1000, modified = Some 2000, title = js ''A'', slug = js ''a'',
            rest = [js ''tags'' \<mapsto> JArr [JStr (js ''x'')]]\<rparr>"
  let ?r = "fst (genDate (\<lambda>v. None) (\<lambda>k. 5000) 0
        \<lparr>DatatypeDto.meta = Some (header ?a), doc_text = js ''hello''\<rparr>)"
  have h: "get (header ?m) (js ''date'') = JDate (Some 5)"
    by (simp add: get_def header_date)
  have "get (fst (genDate (\<lambda>v. None) (\<lambda>k. 5000) 0
        \<lparr>DatatypeDto.meta = Some (header ?m), doc_text = js ''hello''\<rparr>)) (js ''created'')
      = JDate (Some 5)"
    by (simp add: genDate_created h new_Date_Date)
  moreover have "js ''created'' \<in> dom (fst (genDate (\<lambda>v. None) (\<lambda>k. 5000) 0
        \<lparr>DatatypeDto.meta = Some (header ?m), doc_text = js ''hello''\<rparr>))"
    by (simp add: genDate_dom)
  ultimately have wrong: "fst (genDate (\<lambda>v. None) (\<lambda>k. 5000) 0
        \<lparr>DatatypeDto.meta = Some (header ?m), doc_text = js ''hello''\<rparr>) (js ''created'')
      = Some (JDate (Some 5))"
    by (auto simp: get_def)
  have supplied: "meta_object ?a (js ''title'') = Some (JStr (js ''A''))
      \<and> meta_object ?a (js ''slug'') = Some (JStr (js ''a''))
      \<and> meta_object ?a (js ''tags'') = Some (JArr [JStr (js ''x'')])"
    by (simp add: meta_object_def js_def)
  have "js ''title'' \<notin> {js ''created'', js ''modified''}"
    and "js ''slug'' \<notin> {js ''created'', js ''modified''}"
    and "js ''tags'' \<notin> {js ''created'', js ''modified''}"
    by (simp_all add: js_def)
  then have "js ''title'' \<notin> dom ?r" and "js ''slug'' \<notin> dom ?r" and "js ''tags'' \<notin> dom ?r"
    unfolding genDate_dom by blast+
  then have lost: "?r (js ''title'') = None \<and> ?r (js ''slug'') = None \<and> ?r (js ''tags'') = None"
    by blast
  from h wrong supplied lost show ?thesis by simp
qed

end
